theory Spec2Isabelle
  imports Complex_Main
begin

section \<open>Linux System Assistant (ass1.py): telemetry polling and maintenance commands\<close>

text \<open>
  The program is one class, \<^verbatim>\<open>LinuxSystemAssistant\<close>. Its methods read the operating
  system (psutil, platform, os, subprocess) and write attributes and widgets of the
  object. The operating system is a parameter of the model (a record of the answers it
  gives); the attributes and widgets a method writes are a record that the method takes
  and returns. An exception is a value: a method that can raise returns a \<open>res\<close>.
\<close>

subsection \<open>Exceptions and results\<close>

text \<open>
  The exception classes the source distinguishes by an \<^verbatim>\<open>except\<close> clause or raises
  itself, each with the text that \<^verbatim>\<open>str(e)\<close> gives. \<open>OtherError\<close> stands for any
  other subclass of \<^verbatim>\<open>Exception\<close> (for instance the \<^verbatim>\<open>FileNotFoundError\<close> of
  \<^verbatim>\<open>Popen\<close> when the command does not exist).
\<close>

datatype exn = IndexError string | PermissionError string | OtherError string

fun str_exn :: "exn \<Rightarrow> string" where
  "str_exn (IndexError m) = m"
| "str_exn (PermissionError m) = m"
| "str_exn (OtherError m) = m"

fun is_PermissionError :: "exn \<Rightarrow> bool" where
  "is_PermissionError (PermissionError m) = True"
| "is_PermissionError e = False"

text \<open>
  A statement sequence ends normally with a value and the state it reached
  (\<open>Done\<close>), or raises with the state reached at the raise (\<open>Raised\<close>).
\<close>

datatype ('a, 's) res = Done 'a 's | Raised exn 's

fun state_of :: "('a, 's) res \<Rightarrow> 's" where
  "state_of (Done v s) = s"
| "state_of (Raised e s) = s"

subsection \<open>Strings\<close>

text \<open>\<^verbatim>\<open>str(n)\<close> for an integer: decimal digits, a minus sign when negative.\<close>

fun str_nat :: "nat \<Rightarrow> string" where
  "str_nat n =
     (if n < 10 then [''0123456789'' ! n]
      else str_nat (n div 10) @ [''0123456789'' ! (n mod 10)])"

declare str_nat.simps [simp del]

definition str_int :: "int \<Rightarrow> string" where
  "str_int i = (if i < 0 then ''-'' @ str_nat (nat (- i)) else str_nat (nat i))"

text \<open>
  \<^verbatim>\<open>needle in hay\<close> on strings: \<open>needle\<close> occurs as a contiguous run of \<open>hay\<close>.
\<close>

fun contains :: "string \<Rightarrow> string \<Rightarrow> bool" where
  "contains hay needle =
     (take (length needle) hay = needle \<or>
      (case hay of [] \<Rightarrow> False | c # cs \<Rightarrow> contains cs needle))"

declare contains.simps [simp del]

text \<open>
  \<^verbatim>\<open>s.strip()\<close>: the characters for which \<^verbatim>\<open>str.isspace\<close> holds are removed from both
  ends. A \<open>char\<close> is eight bits wide, so the list holds the white space below code
  point 256.
\<close>

definition whitespace :: "char list" where
  "whitespace =
     [CHR 0x09, CHR 0x0A, CHR 0x0B, CHR 0x0C, CHR 0x0D, CHR 0x1C, CHR 0x1D, CHR 0x1E,
      CHR 0x1F, CHR 0x20, CHR 0x85, CHR 0xA0]"

definition strip :: "string \<Rightarrow> string" where
  "strip s =
     rev (dropWhile (\<lambda>c. c \<in> set whitespace) (rev (dropWhile (\<lambda>c. c \<in> set whitespace) s)))"

subsection \<open>The operating system as the telemetry functions see it\<close>

text \<open>
  \<open>sdiskpart\<close> is an element of \<^verbatim>\<open>psutil.disk_partitions()\<close>; \<open>usage_result\<close> is what
  \<^verbatim>\<open>psutil.disk_usage(mountpoint)\<close> does: it returns total, used, free and percent, or
  raises.
\<close>

record sdiskpart =
  part_device :: string
  part_mountpoint :: string
  part_fstype :: string
  part_opts :: string

datatype usage_result = Sdiskusage nat nat nat real | UsageRaises exn

text \<open>
  \<open>cpu_percent k\<close> and \<open>memory_percent k\<close> are the values that the call number \<open>k\<close>
  (counted from 0 over the life of the program) of \<^verbatim>\<open>psutil.cpu_percent(interval=0.1)\<close>
  and of \<^verbatim>\<open>psutil.virtual_memory().percent\<close> return: two calls in one tick may see two
  values. \<open>uptime_seconds\<close> is \<^verbatim>\<open>time.time() - psutil.boot_time()\<close>, a float: the
  real number that the double denotes.
\<close>

record metrics =
  cpu_percent :: "nat \<Rightarrow> real"
  memory_percent :: "nat \<Rightarrow> real"
  uptime_seconds :: real
  boot_time :: string
  uname_system :: string
  uname_node :: string
  uname_release :: string
  uname_version :: string
  uname_machine :: string
  uname_processor :: string
  os_name :: string
  disk_partitions :: "sdiskpart list"
  disk_usage :: "string \<Rightarrow> usage_result"

subsection \<open>The attributes and widgets of the telemetry part\<close>

text \<open>The dictionary that \<^verbatim>\<open>get_system_info\<close> returns.\<close>

record system_info =
  system :: string
  node :: string
  release :: string
  version :: string
  machine :: string
  processor :: string
  boot_time_text :: string
  uptime :: string

text \<open>An element of the list that \<^verbatim>\<open>get_disk_info\<close> returns.\<close>

record disk_entry =
  device :: string
  mountpoint :: string
  fstype :: string
  total_bytes :: nat
  used_bytes :: nat
  free_bytes :: nat
  percent :: real

text \<open>
  The attributes of \<^verbatim>\<open>self\<close> that the polling methods touch. A progress bar is the
  value it shows, a chart line the data given to \<^verbatim>\<open>set_ydata\<close>, the system overview
  the text inserted; the disk overview, the disk table and the CPU usage label of the
  system page are the values they are rendered from (\<^verbatim>\<open>format_bytes\<close> and the float
  formats print floats and are not modelled). \<open>selected_tab\<close> is
  \<^verbatim>\<open>self.notebook.index(self.notebook.select())\<close>, \<open>after_calls\<close> the delays passed to
  \<^verbatim>\<open>self.after\<close>. Three counters record calls: of \<^verbatim>\<open>get_cpu_info\<close>, of
  \<^verbatim>\<open>get_memory_info\<close> and of \<^verbatim>\<open>update_dashboard\<close>.
\<close>

record telemetry =
  cpu_usage_history :: "real list"
  memory_usage_history :: "real list"
  update_interval :: nat
  cpu_progress :: real
  cpu_line :: "real list"
  memory_progress :: real
  memory_line :: "real list"
  system_info_text :: string
  disk_info_text :: "disk_entry list"
  selected_tab :: nat
  system_info_values :: "(string \<times> string) list"
  cpu_usage_value :: real
  disk_tree :: "disk_entry list"
  after_calls :: "nat list"
  cpu_queries :: nat
  memory_queries :: nat
  dashboard_updates :: nat

subsection \<open>get_system_info, get_cpu_info, get_memory_info, get_disk_info\<close>

text \<open>
  A Python float is an IEEE 754 double. A finite double is modelled as the real number
  it denotes, and the result of an arithmetic operation is rounded to the nearest
  double, ties to even (\<open>fl\<close>): 53 significant bits, with the spacing fixed at
  \<open>2\<^sup>-\<^sup>1\<^sup>0\<^sup>7\<^sup>4\<close> below \<open>2\<^sup>-\<^sup>1\<^sup>0\<^sup>2\<^sup>2\<close>. The two zeros are both \<open>0\<close>. Infinities and NaN are
  not modelled: on doubles, the results of the operations below stay within the range
  of the doubles.
\<close>

definition pow2 :: "int \<Rightarrow> real" where
  "pow2 e = (if 0 \<le> e then 2 ^ nat e else 1 / 2 ^ nat (- e))"

definition round_half_even :: "real \<Rightarrow> int" where
  "round_half_even q =
     (let f = \<lfloor>q\<rfloor>; d = q - of_int f
      in if d < 1 / 2 then f else if 1 / 2 < d then f + 1 else if even f then f else f + 1)"

text \<open>
  The binary exponent of \<open>x\<close>, the \<open>e\<close> with \<open>2\<^sup>e \<le> x < 2\<^sup>e\<^sup>+\<^sup>1\<close>, searched upwards from 0
  (at most to 1023) or downwards from -1 (at most to -1022, the exponent of the
  subnormal numbers' spacing).
\<close>

primrec expo_up :: "nat \<Rightarrow> real \<Rightarrow> int \<Rightarrow> int" where
  "expo_up 0 x e = e"
| "expo_up (Suc n) x e = (if x < pow2 (e + 1) then e else expo_up n x (e + 1))"

primrec expo_down :: "nat \<Rightarrow> real \<Rightarrow> int \<Rightarrow> int" where
  "expo_down 0 x e = e"
| "expo_down (Suc n) x e = (if pow2 e \<le> x then e else expo_down n x (e - 1))"

definition expo :: "real \<Rightarrow> int" where
  "expo x = (if 1 \<le> \<bar>x\<bar> then expo_up 1023 \<bar>x\<bar> 0 else expo_down 1021 \<bar>x\<bar> (- 1))"

definition fl :: "real \<Rightarrow> real" where
  "fl x = (if x = 0 then 0
           else let ulp = pow2 (expo x - 52) in ulp * of_int (round_half_even (x / ulp)))"

text \<open>\<^verbatim>\<open>int(x)\<close> of a float: the fractional part is dropped.\<close>

definition int_of_float :: "real \<Rightarrow> int" where
  "int_of_float x = (if x < 0 then - \<lfloor>- x\<rfloor> else \<lfloor>x\<rfloor>)"

text \<open>
  C's \<^verbatim>\<open>fmod\<close>, which is exact: \<open>x\<close> minus \<open>y\<close> times the quotient with its fractional part
  dropped.
\<close>

definition fmod :: "real \<Rightarrow> real \<Rightarrow> real" where
  "fmod x y = x - y * of_int (int_of_float (x / y))"

text \<open>
  \<^verbatim>\<open>vx // wx\<close> and \<^verbatim>\<open>vx % wx\<close> on floats, as the interpreter computes them
  (\<^verbatim>\<open>float_floor_div\<close> and \<^verbatim>\<open>float_rem\<close> in \<^verbatim>\<open>floatobject.c\<close>): the quotient is
  \<^verbatim>\<open>(vx - fmod(vx, wx)) / wx\<close>, lowered by one when the remainder has not the sign of
  the divisor, and then snapped to a whole number. Both raise \<^verbatim>\<open>ZeroDivisionError\<close> for
  \<^verbatim>\<open>wx == 0\<close>; \<^verbatim>\<open>get_system_info\<close> divides by the constants 86400, 3600 and 60 only,
  and the functions below are the computation for a divisor that is not zero.
\<close>

definition float_floor_div :: "real \<Rightarrow> real \<Rightarrow> real" where
  "float_floor_div vx wx =
     (let m = fmod vx wx;
          d = fl (fl (vx - m) / wx);
          d = (if m \<noteq> 0 \<and> (wx < 0) \<noteq> (m < 0) then fl (d - 1) else d)
      in if d \<noteq> 0 then
           (let floordiv = of_int \<lfloor>d\<rfloor>
            in if 1 / 2 < fl (d - floordiv) then fl (floordiv + 1) else floordiv)
         else 0)"

definition float_rem :: "real \<Rightarrow> real \<Rightarrow> real" where
  "float_rem vx wx =
     (let m = fmod vx wx
      in if m \<noteq> 0 then (if (wx < 0) \<noteq> (m < 0) then fl (m + wx) else m) else 0)"

definition get_system_info :: "metrics \<Rightarrow> system_info" where
  "get_system_info os =
     (let uptime_s = uptime_seconds os;
          days = int_of_float (float_floor_div uptime_s (24 * 3600));
          hours = int_of_float (float_floor_div (float_rem uptime_s (24 * 3600)) 3600);
          minutes = int_of_float (float_floor_div (float_rem uptime_s 3600) 60)
      in \<lparr>system = uname_system os,
          node = uname_node os,
          release = uname_release os,
          version = uname_version os,
          machine = uname_machine os,
          processor = (if uname_processor os = [] then ''Unknown'' else uname_processor os),
          boot_time_text = boot_time os,
          uptime = str_int days @ ''d '' @ str_int hours @ ''h '' @ str_int minutes @ ''m''\<rparr>)"

text \<open>
  \<^verbatim>\<open>get_cpu_info\<close> and \<^verbatim>\<open>get_memory_info\<close>: one query of the OS each; of the
  dictionary returned, the entry \<^verbatim>\<open>"percent"\<close> is modelled (the core counts and the
  frequencies are used by no property below).
\<close>

definition get_cpu_info :: "metrics \<Rightarrow> telemetry \<Rightarrow> real \<times> telemetry" where
  "get_cpu_info os s = (cpu_percent os (cpu_queries s), s\<lparr>cpu_queries := Suc (cpu_queries s)\<rparr>)"

definition get_memory_info :: "metrics \<Rightarrow> telemetry \<Rightarrow> real \<times> telemetry" where
  "get_memory_info os s =
     (memory_percent os (memory_queries s), s\<lparr>memory_queries := Suc (memory_queries s)\<rparr>)"

text \<open>
  The loop of \<^verbatim>\<open>get_disk_info\<close> over the partitions, with the list built so far. A
  \<^verbatim>\<open>PermissionError\<close> of \<^verbatim>\<open>disk_usage\<close> is caught and the partition skipped; any other
  exception leaves the method.
\<close>

fun get_disk_info_loop :: "metrics \<Rightarrow> sdiskpart list \<Rightarrow> disk_entry list \<Rightarrow> exn + disk_entry list" where
  "get_disk_info_loop os [] partitions = Inr partitions"
| "get_disk_info_loop os (part # rest) partitions =
     (if os_name os = ''nt'' \<and>
         (contains (part_opts part) ''cdrom'' \<or> part_fstype part = [])
      then get_disk_info_loop os rest partitions
      else case disk_usage os (part_mountpoint part) of
             Sdiskusage t u f p \<Rightarrow>
               get_disk_info_loop os rest
                 (partitions @
                  [\<lparr>device = part_device part,
                    mountpoint = part_mountpoint part,
                    fstype = part_fstype part,
                    total_bytes = t, used_bytes = u, free_bytes = f, percent = p\<rparr>])
           | UsageRaises e \<Rightarrow>
               (if is_PermissionError e then get_disk_info_loop os rest partitions
                else Inl e))"

definition get_disk_info :: "metrics \<Rightarrow> exn + disk_entry list" where
  "get_disk_info os = get_disk_info_loop os (disk_partitions os) []"

subsection \<open>The history buffers\<close>

text \<open>
  \<^verbatim>\<open>history.pop(0); history.append(value)\<close>, the two statements that
  \<^verbatim>\<open>update_system_info\<close> runs on each history. \<^verbatim>\<open>pop(0)\<close> of an empty list raises
  \<^verbatim>\<open>IndexError\<close>.
\<close>

definition history_append :: "real list \<Rightarrow> real \<Rightarrow> exn + real list" where
  "history_append history v =
     (case history of
        [] \<Rightarrow> Inl (IndexError ''pop from empty list'')
      | oldest # kept \<Rightarrow> Inr (kept @ [v]))"

text \<open>A run of appends, one after the other, stopping at the first that raises.\<close>

fun history_appends :: "real list \<Rightarrow> real list \<Rightarrow> exn + real list" where
  "history_appends history [] = Inr history"
| "history_appends history (v # vs) =
     (case history_append history v of
        Inl e \<Rightarrow> Inl e
      | Inr history' \<Rightarrow> history_appends history' vs)"

subsection \<open>The presentation: update_dashboard, update_system_page, update_disk_info\<close>

text \<open>
  \<^verbatim>\<open>self.system_info_values[label].config(text=v)\<close>: the labels are created once, in
  \<^verbatim>\<open>init_system_tab\<close>, and only their text changes.
\<close>

definition config_text :: "string \<Rightarrow> string \<Rightarrow> (string \<times> string) list \<Rightarrow> (string \<times> string) list" where
  "config_text label v values = map (\<lambda>(l, t). if l = label then (l, v) else (l, t)) values"

text \<open>
  \<^verbatim>\<open>update_dashboard\<close> asks the OS again for the CPU and the memory percentage (it
  does not take the values that \<^verbatim>\<open>update_system_info\<close> has just read), shows them in
  the progress bars, gives the two histories to the chart lines, rewrites the system
  overview, and rewrites the disk overview from \<^verbatim>\<open>get_disk_info\<close>, which may raise.
\<close>

definition update_dashboard :: "metrics \<Rightarrow> telemetry \<Rightarrow> (unit, telemetry) res" where
  "update_dashboard os s0 =
     (let s = s0\<lparr>dashboard_updates := Suc (dashboard_updates s0)\<rparr>;
          (cpu, s) = get_cpu_info os s;
          s = s\<lparr>cpu_progress := cpu\<rparr>;
          s = s\<lparr>cpu_line := cpu_usage_history s\<rparr>;
          (mem, s) = get_memory_info os s;
          s = s\<lparr>memory_progress := mem\<rparr>;
          s = s\<lparr>memory_line := memory_usage_history s\<rparr>;
          info = get_system_info os;
          s = s\<lparr>system_info_text :=
                 ''OS: '' @ system info @ ''\<newline>'' @
                 ''Hostname: '' @ node info @ ''\<newline>'' @
                 ''Kernel: '' @ release info @ ''\<newline>'' @
                 ''Architecture: '' @ machine info @ ''\<newline>'' @
                 ''Uptime: '' @ uptime info @ ''\<newline>'' @
                 ''Boot Time: '' @ boot_time_text info\<rparr>
      in case get_disk_info os of
           Inl e \<Rightarrow> Raised e s
         | Inr disk_info \<Rightarrow> Done () (s\<lparr>disk_info_text := disk_info\<rparr>))"

definition update_system_page :: "metrics \<Rightarrow> telemetry \<Rightarrow> telemetry" where
  "update_system_page os s0 =
     (let info = get_system_info os;
          (cpu, s) = get_cpu_info os s0;
          s = s\<lparr>system_info_values :=
                 config_text ''Boot Time'' (boot_time_text info)
                   (config_text ''Uptime'' (uptime info)
                     (config_text ''Processor'' (processor info)
                       (config_text ''Architecture'' (machine info)
                         (config_text ''Kernel'' (release info)
                           (config_text ''Hostname'' (node info)
                             (config_text ''OS'' (system info) (system_info_values s)))))))\<rparr>
      in s\<lparr>cpu_usage_value := cpu\<rparr>)"

definition update_disk_info :: "metrics \<Rightarrow> telemetry \<Rightarrow> (unit, telemetry) res" where
  "update_disk_info os s =
     (case get_disk_info os of
        Inl e \<Rightarrow> Raised e s
      | Inr disk_info \<Rightarrow> Done () (s\<lparr>disk_tree := disk_info\<rparr>))"

subsection \<open>The poller: update_system_info\<close>

text \<open>
  One tick. The method reads the CPU and the memory percentage, moves both histories on,
  updates the dashboard, the system page when tab 1 is selected and the disk page when
  tab 2 is selected, and schedules itself again with \<^verbatim>\<open>self.after\<close>. An exception
  anywhere leaves the method, so nothing after it runs and the next tick is not
  scheduled.
\<close>

definition update_system_info :: "metrics \<Rightarrow> telemetry \<Rightarrow> (unit, telemetry) res" where
  "update_system_info os s0 =
     (let (cpu, s) = get_cpu_info os s0;
          (mem, s) = get_memory_info os s
      in case history_append (cpu_usage_history s) cpu of
           Inl e \<Rightarrow> Raised e s
         | Inr h \<Rightarrow>
             (let s = s\<lparr>cpu_usage_history := h\<rparr>
              in case history_append (memory_usage_history s) mem of
                   Inl e \<Rightarrow> Raised e s
                 | Inr h \<Rightarrow>
                     (let s = s\<lparr>memory_usage_history := h\<rparr>
                      in case update_dashboard os s of
                           Raised e s \<Rightarrow> Raised e s
                         | Done u s \<Rightarrow>
                             (let s = (if selected_tab s = 1 then update_system_page os s else s)
                              in case (if selected_tab s = 2 then update_disk_info os s
                                       else Done () s) of
                                   Raised e s \<Rightarrow> Raised e s
                                 | Done u s \<Rightarrow>
                                     Done () (s\<lparr>after_calls :=
                                                 after_calls s @ [update_interval s]\<rparr>)))))"

text \<open>
  The object as \<^verbatim>\<open>__init__\<close> leaves it just before its last statement, the first call
  of \<^verbatim>\<open>update_system_info\<close>: both histories are \<^verbatim>\<open>[0] * 60\<close>, the chart lines were
  plotted from them, the first tab is selected and every label of the system page
  reads \<^verbatim>\<open>Loading...\<close>.
\<close>

definition initial :: telemetry where
  "initial =
     \<lparr>cpu_usage_history = replicate 60 0,
      memory_usage_history = replicate 60 0,
      update_interval = 1000,
      cpu_progress = 0,
      cpu_line = replicate 60 0,
      memory_progress = 0,
      memory_line = replicate 60 0,
      system_info_text = [],
      disk_info_text = [],
      selected_tab = 0,
      system_info_values =
        map (\<lambda>label. (label, ''Loading...''))
          [''OS'', ''Hostname'', ''Kernel'', ''Architecture'', ''Processor'', ''Uptime'',
           ''Boot Time''],
      cpu_usage_value = 0,
      disk_tree = [],
      after_calls = [],
      cpu_queries = 0,
      memory_queries = 0,
      dashboard_updates = 0\<rparr>"

text \<open>
  A sequence of ticks. Before each tick the user may have selected another tab and the
  OS may answer differently, so a tick is given as the selected tab and the OS. A tick
  that raises ends the sequence: the next one was never scheduled.
\<close>

fun ticks :: "(nat \<times> metrics) list \<Rightarrow> telemetry \<Rightarrow> (unit, telemetry) res" where
  "ticks [] s = Done () s"
| "ticks ((tab, os) # rest) s =
     (case update_system_info os (s\<lparr>selected_tab := tab\<rparr>) of
        Raised e s' \<Rightarrow> Raised e s'
      | Done u s' \<Rightarrow> ticks rest s')"

subsection \<open>The maintenance tab: widgets, processes and the shell\<close>

datatype widget_state = NORMAL | DISABLED

text \<open>A call of \<^verbatim>\<open>messagebox.showerror\<close> or \<^verbatim>\<open>messagebox.showinfo\<close>: title and message.\<close>

datatype dialog = Showerror string string | Showinfo string string

text \<open>
  The attributes of \<^verbatim>\<open>self\<close> that the maintenance methods touch: the text of the log
  widget and its state, the state of the two buttons, and the dialogs shown so far, in
  order. \<open>spawned\<close> records the argument vector of every process that
  \<^verbatim>\<open>subprocess.Popen\<close> or \<^verbatim>\<open>subprocess.run\<close> has started, in order. The calls on
  widgets and the dialogs are taken to return normally (a dialog is dismissed); the
  exceptions of the model come from \<^verbatim>\<open>Popen\<close>, \<^verbatim>\<open>readline\<close> and \<^verbatim>\<open>subprocess.run\<close>.
\<close>

record maintenance =
  log_text :: string
  log_text_state :: widget_state
  update_button :: widget_state
  cleanup_button :: widget_state
  dialogs :: "dialog list"
  spawned :: "string list list"

text \<open>
  A process started by \<^verbatim>\<open>Popen\<close>, as the reading loop observes it: \<open>readline k\<close> is
  what \<^verbatim>\<open>process.stdout.readline()\<close> does in iteration \<open>k\<close> of the loop (it returns a
  line, or the empty string at the end of the stream, or raises, for instance on bytes
  that do not decode), and \<open>poll k\<close> is what \<^verbatim>\<open>process.poll()\<close> returns in that
  iteration (\<open>None\<close> while the process runs, its exit code afterwards). A process may
  run forever.
\<close>

record process =
  readline :: "nat \<Rightarrow> exn + string"
  poll :: "nat \<Rightarrow> int option"

datatype popen_result = Started process | PopenRaises exn

text \<open>
  \<^verbatim>\<open>subprocess.run(argv)\<close> waits for the process: it completes with an exit code,
  raises without having started anything (the command does not exist), or never returns.
\<close>

datatype run_result = Completed int | RunRaises exn | RunBlocks

record shell =
  geteuid :: nat
  popen :: "string list \<Rightarrow> popen_result"
  run :: "string list \<Rightarrow> run_result"

subsection \<open>log_append and the dialogs\<close>

definition log_append :: "string \<Rightarrow> maintenance \<Rightarrow> maintenance" where
  "log_append text s = s\<lparr>log_text := log_text s @ text @ ''\<newline>'', log_text_state := DISABLED\<rparr>"

definition showerror :: "string \<Rightarrow> string \<Rightarrow> maintenance \<Rightarrow> maintenance" where
  "showerror title message s = s\<lparr>dialogs := dialogs s @ [Showerror title message]\<rparr>"

definition showinfo :: "string \<Rightarrow> string \<Rightarrow> maintenance \<Rightarrow> maintenance" where
  "showinfo title message s = s\<lparr>dialogs := dialogs s @ [Showinfo title message]\<rparr>"

text \<open>
  \<^verbatim>\<open>self.update_button.config(state=tk.NORMAL); self.cleanup_button.config(state=tk.NORMAL)\<close>
\<close>

definition enable_buttons :: "maintenance \<Rightarrow> maintenance" where
  "enable_buttons s = s\<lparr>update_button := NORMAL, cleanup_button := NORMAL\<rparr>"

subsection \<open>Running a command and streaming its output\<close>

text \<open>
  The reading loop
  \<^verbatim>\<open>while True: output = readline(); if output == '' and poll() is not None: break; if output: log_append(output.strip())\<close>
  from iteration \<open>k\<close> on. \<open>None\<close> is a loop that never ends; otherwise the loop ends
  with \<^verbatim>\<open>process.returncode\<close>, the code that \<^verbatim>\<open>poll\<close> returned, or raises.
\<close>

partial_function (option) read_output ::
  "process \<Rightarrow> nat \<Rightarrow> maintenance \<Rightarrow> (int, maintenance) res option" where
  "read_output p k s =
     (case readline p k of
        Inl e \<Rightarrow> Some (Raised e s)
      | Inr output \<Rightarrow>
          if output = [] \<and> poll p k \<noteq> None then Some (Done (the (poll p k)) s)
          else read_output p (Suc k) (if output \<noteq> [] then log_append (strip output) s else s))"

declare read_output.simps [code]

text \<open>
  The block that both thread functions repeat for each \<^verbatim>\<open>apt\<close> command:
  \<^verbatim>\<open>process = subprocess.Popen(argv, ...)\<close> and the reading loop.
\<close>

definition popen_read :: "shell \<Rightarrow> string list \<Rightarrow> maintenance \<Rightarrow> (int, maintenance) res option" where
  "popen_read sh argv s =
     (case popen sh argv of
        PopenRaises e \<Rightarrow> Some (Raised e s)
      | Started p \<Rightarrow> read_output p 0 (s\<lparr>spawned := spawned s @ [argv]\<rparr>))"

subsection \<open>The worker threads\<close>

text \<open>The \<^verbatim>\<open>try\<close> block of \<^verbatim>\<open>_run_system_update_thread\<close>.\<close>

definition update_try :: "shell \<Rightarrow> maintenance \<Rightarrow> (unit, maintenance) res option" where
  "update_try sh s0 =
     (if geteuid sh \<noteq> 0 then
        Some (Done ()
          (enable_buttons
            (showerror ''Permission Error''
               ''This operation requires root privileges. Please run with sudo.''
               (log_append ''This operation requires root privileges. Please run with sudo.'' s0))))
      else
        case popen_read sh [''apt'', ''update''] (log_append ''Updating package lists...'' s0) of
          None \<Rightarrow> None
        | Some (Raised e s) \<Rightarrow> Some (Raised e s)
        | Some (Done returncode s) \<Rightarrow>
            if returncode \<noteq> 0 then
              Some (Done ()
                (enable_buttons
                  (showerror ''Update Error'' ''Error updating package lists.''
                     (log_append ''Error updating package lists.'' s))))
            else
              case popen_read sh [''apt'', ''upgrade'', ''-y'']
                     (log_append ''\<newline>Upgrading packages...'' s) of
                None \<Rightarrow> None
              | Some (Raised e s) \<Rightarrow> Some (Raised e s)
              | Some (Done returncode s) \<Rightarrow>
                  if returncode \<noteq> 0 then
                    Some (Done ()
                      (showerror ''Update Error'' ''Error upgrading packages.''
                         (log_append ''Error upgrading packages.'' s)))
                  else
                    Some (Done ()
                      (showinfo ''Update Complete'' ''System update completed successfully!''
                         (log_append ''\<newline>System update completed successfully!'' s))))"

text \<open>
  The \<^verbatim>\<open>try\<close> block of \<^verbatim>\<open>_run_system_cleanup_thread\<close>. The return codes of the two
  \<^verbatim>\<open>apt\<close> processes are not read. \<^verbatim>\<open>subprocess.run(..., check=True)\<close> raises
  \<^verbatim>\<open>CalledProcessError\<close> on a non-zero exit code, which the inner \<^verbatim>\<open>except\<close> catches.
\<close>

definition cleanup_try :: "shell \<Rightarrow> maintenance \<Rightarrow> (unit, maintenance) res option" where
  "cleanup_try sh s0 =
     (if geteuid sh \<noteq> 0 then
        Some (Done ()
          (enable_buttons
            (showerror ''Permission Error''
               ''This operation requires root privileges. Please run with sudo.''
               (log_append ''This operation requires root privileges. Please run with sudo.'' s0))))
      else
        case popen_read sh [''apt'', ''clean''] (log_append ''Cleaning apt cache...'' s0) of
          None \<Rightarrow> None
        | Some (Raised e s) \<Rightarrow> Some (Raised e s)
        | Some (Done returncode s) \<Rightarrow>
            (case popen_read sh [''apt'', ''autoremove'', ''-y'']
                    (log_append ''\<newline>Removing unused packages...'' s) of
               None \<Rightarrow> None
             | Some (Raised e s) \<Rightarrow> Some (Raised e s)
             | Some (Done returncode s) \<Rightarrow>
                 (let s = log_append ''\<newline>Cleaning temporary files...'' s
                  in case run sh [''rm'', ''-rf'', ''/tmp/*''] of
                       RunBlocks \<Rightarrow> None
                     | RunRaises e \<Rightarrow> Some (Raised e s)
                     | Completed code \<Rightarrow>
                         (let s = s\<lparr>spawned := spawned s @ [[''rm'', ''-rf'', ''/tmp/*'']]\<rparr>;
                              s = (if code \<noteq> 0 then log_append ''Error cleaning temporary files.'' s
                                   else log_append ''Temporary files cleaned.'' s)
                          in Some (Done ()
                               (showinfo ''Cleanup Complete'' ''System cleanup completed successfully!''
                                  (log_append ''\<newline>System cleanup completed successfully!'' s)))))))"

text \<open>
  The \<^verbatim>\<open>except Exception as e\<close> and \<^verbatim>\<open>finally\<close> clauses, the same in both thread
  functions: an exception is logged and shown, and the buttons are enabled in every case.
\<close>

fun except_finally :: "(unit, maintenance) res \<Rightarrow> (unit, maintenance) res" where
  "except_finally (Done u s) = Done () (enable_buttons s)"
| "except_finally (Raised e s) =
     Done ()
       (enable_buttons
         (showerror ''Error'' (''Unexpected error: '' @ str_exn e)
            (log_append (''Unexpected error: '' @ str_exn e) s)))"

definition run_system_update_thread :: "shell \<Rightarrow> maintenance \<Rightarrow> (unit, maintenance) res option" where
  "run_system_update_thread sh s = map_option except_finally (update_try sh s)"

definition run_system_cleanup_thread :: "shell \<Rightarrow> maintenance \<Rightarrow> (unit, maintenance) res option" where
  "run_system_cleanup_thread sh s = map_option except_finally (cleanup_try sh s)"

text \<open>
  The button handlers: the log is replaced by the starting line, both buttons are
  disabled and the thread is started. The thread is run to its end here, with nothing
  else touching the attributes meanwhile.
\<close>

definition run_system_update :: "shell \<Rightarrow> maintenance \<Rightarrow> (unit, maintenance) res option" where
  "run_system_update sh s =
     run_system_update_thread sh
       (s\<lparr>log_text := ''Starting system update...\<newline>'', log_text_state := DISABLED,
          update_button := DISABLED, cleanup_button := DISABLED\<rparr>)"

definition run_system_cleanup :: "shell \<Rightarrow> maintenance \<Rightarrow> (unit, maintenance) res option" where
  "run_system_cleanup sh s =
     run_system_cleanup_thread sh
       (s\<lparr>log_text := ''Starting system cleanup...\<newline>'', log_text_state := DISABLED,
          update_button := DISABLED, cleanup_button := DISABLED\<rparr>)"

text \<open>
  The process \<open>p\<close> is seen to have ended in iteration \<open>n\<close> of the reading loop, with exit
  code \<open>rc\<close>, and not before; no \<^verbatim>\<open>readline\<close> up to there raises.
\<close>

definition exits_at :: "process \<Rightarrow> nat \<Rightarrow> int \<Rightarrow> bool" where
  "exits_at p n rc =
     (readline p n = Inr [] \<and> poll p n = Some rc \<and>
      (\<forall>k<n. case readline p k of Inl e \<Rightarrow> False
                | Inr output \<Rightarrow> output \<noteq> [] \<or> poll p k = None))"

text \<open>
  What the reading loop appends to the log in the \<open>m\<close> iterations from \<open>k\<close> on.
\<close>

primrec log_outputs :: "process \<Rightarrow> nat \<Rightarrow> nat \<Rightarrow> maintenance \<Rightarrow> maintenance" where
  "log_outputs p k 0 s = s"
| "log_outputs p k (Suc m) s =
     log_outputs p (Suc k) m
       (case readline p k of
          Inl e \<Rightarrow> s
        | Inr output \<Rightarrow> if output \<noteq> [] then log_append (strip output) s else s)"

text \<open>A process that writes the given lines and then exits with the given code.\<close>

definition writes_then_exits :: "string list \<Rightarrow> int \<Rightarrow> process" where
  "writes_then_exits lines rc =
     \<lparr>readline = (\<lambda>k. Inr (if k < length lines then lines ! k else [])),
      poll = (\<lambda>k. if k < length lines then None else Some rc)\<rparr>"

subsection \<open>Concrete inputs\<close>

text \<open>
  A root shell in which every \<^verbatim>\<open>Popen\<close> starts a process that writes one line and
  exits with code 100, as \<^verbatim>\<open>apt update\<close> does when it cannot take its lock.
\<close>

definition root_refresh_fails :: shell where
  "root_refresh_fails =
     \<lparr>geteuid = 0,
      popen = (\<lambda>argv. Started (writes_then_exits [''E: Could not get lock\<newline>''] 100)),
      run = (\<lambda>argv. Completed 0)\<rparr>"

text \<open>The maintenance widgets as \<^verbatim>\<open>run_system_update\<close> leaves them when it starts the thread.\<close>

definition busy :: maintenance where
  "busy =
     \<lparr>log_text = ''Starting system update...\<newline>'', log_text_state = DISABLED,
      update_button = DISABLED, cleanup_button = DISABLED, dialogs = [], spawned = []\<rparr>"

text \<open>A shell without root rights, in which every command would succeed.\<close>

definition unprivileged :: shell where
  "unprivileged =
     \<lparr>geteuid = 1000,
      popen = (\<lambda>argv. Started (writes_then_exits [] 0)),
      run = (\<lambda>argv. Completed 0)\<rparr>"

text \<open>A root shell on a system without \<^verbatim>\<open>apt\<close>: \<^verbatim>\<open>Popen\<close> raises.\<close>

definition root_without_apt :: shell where
  "root_without_apt =
     \<lparr>geteuid = 0,
      popen = (\<lambda>argv. PopenRaises (OtherError ''No such file or directory'')),
      run = (\<lambda>argv. Completed 0)\<rparr>"

text \<open>
  A root shell in which \<^verbatim>\<open>apt clean\<close> exits with 0, \<^verbatim>\<open>apt autoremove -y\<close> with 2 and
  \<^verbatim>\<open>rm -rf /tmp/*\<close> with 0, none of them writing anything.
\<close>

definition root_autoremove_fails :: shell where
  "root_autoremove_fails =
     \<lparr>geteuid = 0,
      popen = (\<lambda>argv. Started (writes_then_exits []
                 (if argv = [''apt'', ''autoremove'', ''-y''] then 2 else 0))),
      run = (\<lambda>argv. Completed 0)\<rparr>"

text \<open>
  An OS whose CPU reads 42.5 percent at the first query and 17 percent afterwards, up
  for 2 days, 3 hours, 4 minutes and 5 seconds, with three partitions of which the
  second may not be read.
\<close>

definition sample_os :: metrics where
  "sample_os =
     \<lparr>cpu_percent = (\<lambda>k. if k = 0 then 42.5 else 17),
      memory_percent = (\<lambda>k. if k = 0 then 61 else 63),
      uptime_seconds = 183845,
      boot_time = ''2024-01-01 08:00:00'',
      uname_system = ''Linux'',
      uname_node = ''host'',
      uname_release = ''6.1.0'',
      uname_version = ''#1 SMP'',
      uname_machine = ''x86_64'',
      uname_processor = [],
      os_name = ''posix'',
      disk_partitions =
        [\<lparr>part_device = ''/dev/sda1'', part_mountpoint = ''/'', part_fstype = ''ext4'',
          part_opts = ''rw''\<rparr>,
         \<lparr>part_device = ''/dev/sdb1'', part_mountpoint = ''/mnt/private'',
          part_fstype = ''ext4'', part_opts = ''rw''\<rparr>,
         \<lparr>part_device = ''/dev/sda2'', part_mountpoint = ''/home'', part_fstype = ''ext4'',
          part_opts = ''rw''\<rparr>],
      disk_usage =
        (\<lambda>m. if m = ''/mnt/private'' then UsageRaises (PermissionError ''Permission denied'')
             else Sdiskusage 1000 400 600 40)\<rparr>"


text \<open>What \<^verbatim>\<open>get_disk_info\<close> returns on \<open>sample_os\<close>: the two readable partitions.\<close>

definition sample_disk_info :: "disk_entry list" where
  "sample_disk_info =
     [\<lparr>device = ''/dev/sda1'', mountpoint = ''/'', fstype = ''ext4'',
       total_bytes = 1000, used_bytes = 400, free_bytes = 600, percent = 40\<rparr>,
      \<lparr>device = ''/dev/sda2'', mountpoint = ''/home'', fstype = ''ext4'',
       total_bytes = 1000, used_bytes = 400, free_bytes = 600, percent = 40\<rparr>]"

section \<open>Properties\<close>

subsection \<open>The history buffers\<close>

lemma history_append_length: "history_append h v = Inr h' \<Longrightarrow> length h' = length h"
  by (cases h) (auto simp: history_append_def)

lemma history_appends_drop:
  "h \<noteq> [] \<Longrightarrow> history_appends h vs = Inr (drop (length vs) (h @ vs))"
proof (induction vs arbitrary: h)
  case Nil
  then show ?case by simp
next
  case (Cons v vs)
  from Cons.prems obtain a t where h: "h = a # t" by (cases h) auto
  have "history_appends h (v # vs) = history_appends (t @ [v]) vs"
    by (simp add: h history_append_def)
  also have "\<dots> = Inr (drop (length vs) ((t @ [v]) @ vs))"
    by (rule Cons.IH) simp
  finally show ?case by (simp add: h)
qed

text \<open>
  C4, as the spec states it: after a value \<open>v\<close> and capacity - 1 more values have been
  appended, \<open>v\<close> has been evicted and index 0 holds the second appended value. On the
  code this fails: with capacity 60 and the values 1, 2, ..., 60 appended to the
  initial buffer, the buffer is exactly these 60 values, so index 0 still holds the
  first appended value 1 and not the second, 2.
\<close>

theorem first_appended_not_yet_evicted:
  "history_appends (replicate 60 0) (1 # 2 # map real [3..<61]) =
     Inr (1 # 2 # map real [3..<61]) \<and>
   (1 # 2 # map real [3..<61]) ! 0 \<noteq> 2 \<and>
   length (1 # 2 # map real [3..<61]) = 60"
  by code_simp

text \<open>
  C4, amended: for a buffer of capacity \<open>C > 0\<close>, after exactly \<open>C\<close> appends the
  buffer holds exactly the \<open>C\<close> appended values in order (index 0 is the first appended
  value, all initial values are gone); one more append evicts the first appended value,
  and then index 0 holds the second appended value.
\<close>

theorem fifo_after_capacity_appends:
  assumes "length h = C" and "0 < C" and "length vs = C"
  shows "history_appends h vs = Inr vs \<and>
         history_appends h (vs @ [w]) = Inr (tl vs @ [w]) \<and>
         (2 \<le> C \<longrightarrow> (tl vs @ [w]) ! 0 = vs ! 1)"
proof -
  from assms have ne: "h \<noteq> []" by auto
  have a: "history_appends h vs = Inr vs"
    using assms by (simp add: history_appends_drop [OF ne])
  have "history_appends h (vs @ [w]) = Inr (drop (Suc C) (h @ vs @ [w]))"
    using assms by (simp add: history_appends_drop [OF ne])
  also have "drop (Suc C) (h @ vs @ [w]) = drop 1 (vs @ [w])"
    using assms by simp
  also have "\<dots> = tl vs @ [w]"
    using assms by (cases vs) auto
  finally have b: "history_appends h (vs @ [w]) = Inr (tl vs @ [w])" .
  have c: "2 \<le> C \<longrightarrow> (tl vs @ [w]) ! 0 = vs ! 1"
  proof
    assume "2 \<le> C"
    with assms obtain x y zs where "vs = x # y # zs"
      by (cases vs; cases "tl vs") auto
    then show "(tl vs @ [w]) ! 0 = vs ! 1" by simp
  qed
  from a b c show ?thesis by blast
qed

theorem fifo_after_capacity_appends_witness:
  "history_appends (replicate 60 0) (map real [1..<61]) = Inr (map real [1..<61]) \<and>
   history_appends (replicate 60 0) (map real [1..<61] @ [61]) =
     Inr (tl (map real [1..<61]) @ [61]) \<and>
   (tl (map real [1..<61]) @ [61]) ! 0 = map real [1..<61] ! 1"
  using fifo_after_capacity_appends [of "replicate 60 0" 60 "map real [1..<61]" 61]
  by simp

subsection \<open>The poller\<close>

lemma update_dashboard_histories:
  "cpu_usage_history (state_of (update_dashboard os s)) = cpu_usage_history s"
  "memory_usage_history (state_of (update_dashboard os s)) = memory_usage_history s"
  by (simp_all add: update_dashboard_def get_cpu_info_def get_memory_info_def Let_def
        split: sum.split)

lemma update_system_page_histories:
  "cpu_usage_history (update_system_page os s) = cpu_usage_history s"
  "memory_usage_history (update_system_page os s) = memory_usage_history s"
  by (simp_all add: update_system_page_def get_cpu_info_def Let_def)

lemma update_disk_info_histories:
  "cpu_usage_history (state_of (update_disk_info os s)) = cpu_usage_history s"
  "memory_usage_history (state_of (update_disk_info os s)) = memory_usage_history s"
  by (simp_all add: update_disk_info_def split: sum.split)

lemma update_dashboard_hist:
  "update_dashboard os s = r \<Longrightarrow>
   cpu_usage_history (state_of r) = cpu_usage_history s \<and>
   memory_usage_history (state_of r) = memory_usage_history s"
  using update_dashboard_histories by blast

lemma update_disk_info_hist:
  "update_disk_info os s = r \<Longrightarrow>
   cpu_usage_history (state_of r) = cpu_usage_history s \<and>
   memory_usage_history (state_of r) = memory_usage_history s"
  using update_disk_info_histories by blast

lemma update_system_info_lengths:
  "length (cpu_usage_history (state_of (update_system_info os s))) =
     length (cpu_usage_history s) \<and>
   length (memory_usage_history (state_of (update_system_info os s))) =
     length (memory_usage_history s)"
  by (auto simp: update_system_info_def get_cpu_info_def get_memory_info_def Let_def
        update_system_page_histories
        split: sum.split res.split dest!: update_dashboard_hist update_disk_info_hist
        history_append_length)

lemma ticks_lengths:
  "length (cpu_usage_history (state_of (ticks ts s))) = length (cpu_usage_history s) \<and>
   length (memory_usage_history (state_of (ticks ts s))) = length (memory_usage_history s)"
proof (induction ts arbitrary: s)
  case Nil
  show ?case by simp
next
  case (Cons t ts)
  obtain tab os where t: "t = (tab, os)" by (cases t)
  let ?s = "s\<lparr>selected_tab := tab\<rparr>"
  show ?case
  proof (cases "update_system_info os ?s")
    case (Done u s')
    with update_system_info_lengths [of os ?s] Cons.IH [of s'] show ?thesis
      by (simp add: t)
  next
    case (Raised e s')
    with update_system_info_lengths [of os ?s] show ?thesis
      by (simp add: t)
  qed
qed

text \<open>
  C5: after any number of ticks, whatever tab is selected and whatever the OS answers
  at each of them, both histories have length 60. The empty sequence is the initial
  state; a tick that raises leaves the histories at length 60 as well.
\<close>

theorem histories_always_60:
  "length (cpu_usage_history (state_of (ticks ts initial))) = 60 \<and>
   length (memory_usage_history (state_of (ticks ts initial))) = 60"
  using ticks_lengths [of ts initial] by (simp add: initial_def)

subsection \<open>The reading loop\<close>

lemma read_output_from:
  "readline p (k + m) = Inr [] \<Longrightarrow> poll p (k + m) = Some rc \<Longrightarrow>
   (\<forall>j<m. case readline p (k + j) of Inl e \<Rightarrow> False
            | Inr output \<Rightarrow> output \<noteq> [] \<or> poll p (k + j) = None) \<Longrightarrow>
   read_output p k s = Some (Done rc (log_outputs p k m s))"
proof (induction m arbitrary: k s)
  case 0
  then show ?case by (subst read_output.simps) simp
next
  case (Suc m)
  from Suc.prems(3) have here:
    "case readline p k of Inl e \<Rightarrow> False | Inr output \<Rightarrow> output \<noteq> [] \<or> poll p k = None"
    by (metis add.right_neutral zero_less_Suc)
  then obtain line where out: "readline p k = Inr line"
    and go: "line \<noteq> [] \<or> poll p k = None"
    by (cases "readline p k") auto
  let ?s = "if line \<noteq> [] then log_append (strip line) s else s"
  have later: "\<forall>j<m. case readline p (Suc k + j) of Inl e \<Rightarrow> False
            | Inr output \<Rightarrow> output \<noteq> [] \<or> poll p (Suc k + j) = None"
  proof (intro allI impI)
    fix j assume "j < m"
    then have "Suc j < Suc m" by simp
    with Suc.prems(3) show "case readline p (Suc k + j) of Inl e \<Rightarrow> False
            | Inr output \<Rightarrow> output \<noteq> [] \<or> poll p (Suc k + j) = None"
      by (metis add_Suc_shift)
  qed
  have "read_output p (Suc k) ?s = Some (Done rc (log_outputs p (Suc k) m ?s))"
    using Suc.prems(1,2) later by (intro Suc.IH) simp_all
  moreover have "read_output p k s = read_output p (Suc k) ?s"
    using out go by (subst read_output.simps) auto
  ultimately show ?case by (simp add: out)
qed

lemma read_output_exits:
  "exits_at p n rc \<Longrightarrow> read_output p 0 s = Some (Done rc (log_outputs p 0 n s))"
  unfolding exits_at_def
  apply (elim conjE)
  apply (rule read_output_from [of p 0 n rc s, unfolded add_0])
    apply assumption+
  done

lemma log_append_fields:
  "dialogs (log_append text s) = dialogs s"
  "spawned (log_append text s) = spawned s"
  "update_button (log_append text s) = update_button s"
  "cleanup_button (log_append text s) = cleanup_button s"
  by (simp_all add: log_append_def)

lemma log_outputs_dialogs: "dialogs (log_outputs p k m s) = dialogs s"
proof (induction m arbitrary: k s)
  case 0
  show ?case by simp
next
  case (Suc m)
  show ?case by (cases "readline p k") (simp_all add: Suc.IH log_append_fields)
qed

lemma log_outputs_spawned: "spawned (log_outputs p k m s) = spawned s"
proof (induction m arbitrary: k s)
  case 0
  show ?case by simp
next
  case (Suc m)
  show ?case by (cases "readline p k") (simp_all add: Suc.IH log_append_fields)
qed

lemma log_outputs_update_button: "update_button (log_outputs p k m s) = update_button s"
proof (induction m arbitrary: k s)
  case 0
  show ?case by simp
next
  case (Suc m)
  show ?case by (cases "readline p k") (simp_all add: Suc.IH log_append_fields)
qed

lemma log_outputs_cleanup_button: "cleanup_button (log_outputs p k m s) = cleanup_button s"
proof (induction m arbitrary: k s)
  case 0
  show ?case by simp
next
  case (Suc m)
  show ?case by (cases "readline p k") (simp_all add: Suc.IH log_append_fields)
qed

lemmas log_outputs_fields =
  log_outputs_dialogs log_outputs_spawned log_outputs_update_button log_outputs_cleanup_button

lemma log_outputs_log_text:
  "log_text s = log_text t \<Longrightarrow> log_text (log_outputs p k m s) = log_text (log_outputs p k m t)"
proof (induction m arbitrary: k s t)
  case 0
  then show ?case by simp
next
  case (Suc m)
  show ?case
  proof (cases "readline p k")
    case (Inl e)
    from Suc.IH [OF Suc.prems] show ?thesis by (simp add: Inl)
  next
    case (Inr line)
    have "log_text (if line \<noteq> [] then log_append (strip line) s else s) =
          log_text (if line \<noteq> [] then log_append (strip line) t else t)"
      using Suc.prems by (simp add: log_append_def)
    from Suc.IH [OF this] show ?thesis by (simp add: Inr)
  qed
qed

lemma log_outputs_after_spawn:
  "log_text (log_outputs p k m (s\<lparr>spawned := x\<rparr>)) = log_text (log_outputs p k m s)"
  by (rule log_outputs_log_text) simp

text \<open>
  C7: when the update runs as root and the first process, \<^verbatim>\<open>apt update\<close>, ends with a
  non-zero exit code, the thread returns; \<^verbatim>\<open>apt update\<close> is the only process that was
  started (\<^verbatim>\<open>apt upgrade\<close> never runs), the failure is written to the log, and one error
  dialog naming the failed phase is shown. The buttons are enabled again.
\<close>

theorem update_refresh_failure_aborts:
  assumes "geteuid sh = 0" and "popen sh [''apt'', ''update''] = Started p"
    and "exits_at p n rc" and "rc \<noteq> 0"
  shows "\<exists>s'. run_system_update_thread sh s = Some (Done () s') \<and>
           spawned s' = spawned s @ [[''apt'', ''update'']] \<and>
           dialogs s' = dialogs s @ [Showerror ''Update Error'' ''Error updating package lists.''] \<and>
           log_text s' =
             log_text (log_outputs p 0 n (log_append ''Updating package lists...'' s)) @
             ''Error updating package lists.\<newline>'' \<and>
           update_button s' = NORMAL \<and> cleanup_button s' = NORMAL"
proof -
  let ?s1 = "log_append ''Updating package lists...'' s"
  let ?s2 = "?s1\<lparr>spawned := spawned ?s1 @ [[''apt'', ''update'']]\<rparr>"
  have "popen_read sh [''apt'', ''update''] ?s1 = Some (Done rc (log_outputs p 0 n ?s2))"
    using assms(2) read_output_exits [OF assms(3)] by (simp add: popen_read_def)
  then have "run_system_update_thread sh s =
     Some (Done () (enable_buttons (enable_buttons
        (showerror ''Update Error'' ''Error updating package lists.''
           (log_append ''Error updating package lists.'' (log_outputs p 0 n ?s2))))))"
    using assms(1,4) by (simp add: run_system_update_thread_def update_try_def)
  then show ?thesis
    by (simp add: enable_buttons_def showerror_def log_append_def log_outputs_fields
        log_outputs_after_spawn)
qed




theorem update_refresh_failure_aborts_witness:
  "geteuid root_refresh_fails = 0 \<and>
   popen root_refresh_fails [''apt'', ''update''] =
     Started (writes_then_exits [''E: Could not get lock\<newline>''] 100) \<and>
   exits_at (writes_then_exits [''E: Could not get lock\<newline>''] 100) 1 100 \<and>
   (\<exists>s'. run_system_update_thread root_refresh_fails busy = Some (Done () s') \<and>
      spawned s' = [[''apt'', ''update'']] \<and>
      dialogs s' = [Showerror ''Update Error'' ''Error updating package lists.''] \<and>
      log_text s' = ''Starting system update...\<newline>Updating package lists...\<newline>E: Could not get lock\<newline>Error updating package lists.\<newline>'' \<and>
      update_button s' = NORMAL \<and> cleanup_button s' = NORMAL)"
proof -
  have a: "geteuid root_refresh_fails = 0"
    by (simp add: root_refresh_fails_def)
  have b: "popen root_refresh_fails [''apt'', ''update''] =
     Started (writes_then_exits [''E: Could not get lock\<newline>''] 100)"
    by (simp add: root_refresh_fails_def)
  have c: "exits_at (writes_then_exits [''E: Could not get lock\<newline>''] 100) 1 100"
    by (simp add: exits_at_def writes_then_exits_def)
  have d: "log_text (log_outputs (writes_then_exits [''E: Could not get lock\<newline>''] 100) 0 1
             (log_append ''Updating package lists...'' busy)) =
           ''Starting system update...\<newline>Updating package lists...\<newline>E: Could not get lock\<newline>''"
    by (simp add: writes_then_exits_def busy_def log_append_def strip_def whitespace_def)
  from update_refresh_failure_aborts [OF a b c, of busy] a b c show ?thesis
    unfolding d by (simp add: busy_def)
qed

subsection \<open>The worker threads\<close>

text \<open>
  C3: when the effective user is not root, the update thread and the cleanup thread
  both return at once with the same result: the permission message in the log and in
  one error dialog, the buttons enabled, and no process started.
\<close>

theorem permission_denied_spawns_nothing:
  assumes "geteuid sh \<noteq> 0"
  shows "\<exists>s'. run_system_update_thread sh s = Some (Done () s') \<and>
           run_system_cleanup_thread sh s = Some (Done () s') \<and>
           spawned s' = spawned s \<and>
           dialogs s' = dialogs s @
             [Showerror ''Permission Error''
                ''This operation requires root privileges. Please run with sudo.''] \<and>
           log_text s' = log_text s @
             ''This operation requires root privileges. Please run with sudo.\<newline>'' \<and>
           update_button s' = NORMAL \<and> cleanup_button s' = NORMAL"
  using assms
  by (simp add: run_system_update_thread_def run_system_cleanup_thread_def update_try_def
      cleanup_try_def enable_buttons_def showerror_def log_append_def)

theorem permission_denied_spawns_nothing_witness:
  "geteuid unprivileged \<noteq> 0 \<and>
   (\<exists>s'. run_system_update_thread unprivileged busy = Some (Done () s') \<and>
         run_system_cleanup_thread unprivileged busy = Some (Done () s') \<and>
         spawned s' = [] \<and>
         dialogs s' =
           [Showerror ''Permission Error''
              ''This operation requires root privileges. Please run with sudo.''] \<and>
         log_text s' = ''Starting system update...\<newline>This operation requires root privileges. Please run with sudo.\<newline>'' \<and>
         update_button s' = NORMAL \<and> cleanup_button s' = NORMAL)"
proof -
  have a: "geteuid unprivileged \<noteq> 0" by (simp add: unprivileged_def)
  from permission_denied_spawns_nothing [OF a, of busy] a show ?thesis
    by (simp add: busy_def)
qed

lemma except_finally_Done:
  "\<exists>s'. except_finally r = Done () s' \<and> update_button s' = NORMAL \<and> cleanup_button s' = NORMAL"
  by (cases r) (simp_all add: enable_buttons_def)

text \<open>
  C6: whenever the update thread or the cleanup thread ends, it ends normally (no
  exception leaves it) and both buttons are enabled; and when the \<^verbatim>\<open>try\<close> block raises an
  exception \<open>e\<close>, the thread logs \<^verbatim>\<open>Unexpected error: \<close> followed by the message of \<open>e\<close>,
  shows it in an error dialog, and ends normally with the buttons enabled.
\<close>

theorem controls_reenabled_exceptions_caught:
  "(run_system_update_thread sh s = Some r \<longrightarrow>
      (\<exists>s'. r = Done () s' \<and> update_button s' = NORMAL \<and> cleanup_button s' = NORMAL)) \<and>
   (run_system_cleanup_thread sh s = Some r \<longrightarrow>
      (\<exists>s'. r = Done () s' \<and> update_button s' = NORMAL \<and> cleanup_button s' = NORMAL)) \<and>
   (update_try sh s = Some (Raised e t) \<longrightarrow>
      (\<exists>s'. run_system_update_thread sh s = Some (Done () s') \<and>
            log_text s' = log_text t @ ''Unexpected error: '' @ str_exn e @ ''\<newline>'' \<and>
            dialogs s' = dialogs t @ [Showerror ''Error'' (''Unexpected error: '' @ str_exn e)] \<and>
            update_button s' = NORMAL \<and> cleanup_button s' = NORMAL)) \<and>
   (cleanup_try sh s = Some (Raised e t) \<longrightarrow>
      (\<exists>s'. run_system_cleanup_thread sh s = Some (Done () s') \<and>
            log_text s' = log_text t @ ''Unexpected error: '' @ str_exn e @ ''\<newline>'' \<and>
            dialogs s' = dialogs t @ [Showerror ''Error'' (''Unexpected error: '' @ str_exn e)] \<and>
            update_button s' = NORMAL \<and> cleanup_button s' = NORMAL))"
proof (intro conjI impI)
  assume "run_system_update_thread sh s = Some r"
  then obtain r0 where "r = except_finally r0"
    by (auto simp: run_system_update_thread_def)
  with except_finally_Done [of r0]
  show "\<exists>s'. r = Done () s' \<and> update_button s' = NORMAL \<and> cleanup_button s' = NORMAL"
    by simp
next
  assume "run_system_cleanup_thread sh s = Some r"
  then obtain r0 where "r = except_finally r0"
    by (auto simp: run_system_cleanup_thread_def)
  with except_finally_Done [of r0]
  show "\<exists>s'. r = Done () s' \<and> update_button s' = NORMAL \<and> cleanup_button s' = NORMAL"
    by simp
next
  assume "update_try sh s = Some (Raised e t)"
  then show "\<exists>s'. run_system_update_thread sh s = Some (Done () s') \<and>
            log_text s' = log_text t @ ''Unexpected error: '' @ str_exn e @ ''\<newline>'' \<and>
            dialogs s' = dialogs t @ [Showerror ''Error'' (''Unexpected error: '' @ str_exn e)] \<and>
            update_button s' = NORMAL \<and> cleanup_button s' = NORMAL"
    by (simp add: run_system_update_thread_def enable_buttons_def showerror_def log_append_def)
next
  assume "cleanup_try sh s = Some (Raised e t)"
  then show "\<exists>s'. run_system_cleanup_thread sh s = Some (Done () s') \<and>
            log_text s' = log_text t @ ''Unexpected error: '' @ str_exn e @ ''\<newline>'' \<and>
            dialogs s' = dialogs t @ [Showerror ''Error'' (''Unexpected error: '' @ str_exn e)] \<and>
            update_button s' = NORMAL \<and> cleanup_button s' = NORMAL"
    by (simp add: run_system_cleanup_thread_def enable_buttons_def showerror_def log_append_def)
qed

theorem controls_reenabled_exceptions_caught_witness:
  "update_try root_without_apt busy =
     Some (Raised (OtherError ''No such file or directory'')
             (log_append ''Updating package lists...'' busy)) \<and>
   cleanup_try root_without_apt busy =
     Some (Raised (OtherError ''No such file or directory'')
             (log_append ''Cleaning apt cache...'' busy)) \<and>
   (\<exists>s'. run_system_update_thread root_without_apt busy = Some (Done () s') \<and>
         log_text s' = ''Starting system update...\<newline>Updating package lists...\<newline>Unexpected error: No such file or directory\<newline>'' \<and>
         dialogs s' = [Showerror ''Error'' ''Unexpected error: No such file or directory''] \<and>
         spawned s' = [] \<and>
         update_button s' = NORMAL \<and> cleanup_button s' = NORMAL) \<and>
   (\<exists>s'. run_system_cleanup_thread root_without_apt busy = Some (Done () s') \<and>
         log_text s' = ''Starting system update...\<newline>Cleaning apt cache...\<newline>Unexpected error: No such file or directory\<newline>'' \<and>
         dialogs s' = [Showerror ''Error'' ''Unexpected error: No such file or directory''] \<and>
         spawned s' = [] \<and>
         update_button s' = NORMAL \<and> cleanup_button s' = NORMAL)"
proof -
  let ?e = "OtherError ''No such file or directory''"
  have a: "update_try root_without_apt busy =
     Some (Raised ?e (log_append ''Updating package lists...'' busy))"
    by (simp add: update_try_def popen_read_def root_without_apt_def)
  have b: "cleanup_try root_without_apt busy =
     Some (Raised ?e (log_append ''Cleaning apt cache...'' busy))"
    by (simp add: cleanup_try_def popen_read_def root_without_apt_def)
  from controls_reenabled_exceptions_caught
         [where sh = root_without_apt and s = busy and e = ?e
            and t = "log_append ''Updating package lists...'' busy"] a
  obtain u where u: "run_system_update_thread root_without_apt busy = Some (Done () u)"
    by blast
  from controls_reenabled_exceptions_caught
         [where sh = root_without_apt and s = busy and e = ?e
            and t = "log_append ''Cleaning apt cache...'' busy"] b
  obtain c where c: "run_system_cleanup_thread root_without_apt busy = Some (Done () c)"
    by blast
  from u have u': "u = enable_buttons (showerror ''Error'' (''Unexpected error: '' @ str_exn ?e)
            (log_append (''Unexpected error: '' @ str_exn ?e)
               (log_append ''Updating package lists...'' busy)))"
    by (simp add: run_system_update_thread_def a)
  from c have c': "c = enable_buttons (showerror ''Error'' (''Unexpected error: '' @ str_exn ?e)
            (log_append (''Unexpected error: '' @ str_exn ?e)
               (log_append ''Cleaning apt cache...'' busy)))"
    by (simp add: run_system_cleanup_thread_def b)
  have "log_text u = ''Starting system update...\<newline>Updating package lists...\<newline>Unexpected error: No such file or directory\<newline>'' \<and>
         dialogs u = [Showerror ''Error'' ''Unexpected error: No such file or directory''] \<and>
         spawned u = [] \<and> update_button u = NORMAL \<and> cleanup_button u = NORMAL"
    unfolding u' by (simp add: enable_buttons_def showerror_def log_append_def busy_def)
  moreover have "log_text c = ''Starting system update...\<newline>Cleaning apt cache...\<newline>Unexpected error: No such file or directory\<newline>'' \<and>
         dialogs c = [Showerror ''Error'' ''Unexpected error: No such file or directory''] \<and>
         spawned c = [] \<and> update_button c = NORMAL \<and> cleanup_button c = NORMAL"
    unfolding c' by (simp add: enable_buttons_def showerror_def log_append_def busy_def)
  ultimately show ?thesis using a b u c by blast
qed

lemma exits_at_once: "exits_at (writes_then_exits [] rc) 0 rc"
  by (simp add: exits_at_def writes_then_exits_def)

text \<open>
  C1: the claim asks that a cleanup whose second step exits with code 2 stops there
  and reports the failure. The cleanup thread does not read the exit codes of its
  \<^verbatim>\<open>apt\<close> processes: with \<^verbatim>\<open>apt autoremove -y\<close> exiting with 2 it still starts
  \<^verbatim>\<open>rm -rf /tmp/*\<close> and shows the dialog of a successful cleanup.
\<close>

theorem cleanup_reports_success_after_failed_step:
  "map_option (\<lambda>r. (spawned (state_of r), dialogs (state_of r)))
     (run_system_cleanup_thread root_autoremove_fails busy) =
   Some ([[''apt'', ''clean''], [''apt'', ''autoremove'', ''-y''], [''rm'', ''-rf'', ''/tmp/*'']],
         [Showinfo ''Cleanup Complete'' ''System cleanup completed successfully!''])"
  by (simp add: run_system_cleanup_thread_def cleanup_try_def popen_read_def
      root_autoremove_fails_def busy_def read_output_exits [OF exits_at_once]
      enable_buttons_def showinfo_def log_append_def)

subsection \<open>Float arithmetic on whole numbers\<close>

lemma pow2_powi: "pow2 e = 2 powi e"
  by (simp add: pow2_def power_int_def field_simps)


lemma pow2_Suc: "pow2 (e + 1) = 2 * pow2 e"
  by (simp add: pow2_powi power_int_add)


lemma pow2_strict_mono: "a < b \<Longrightarrow> pow2 a < pow2 b"
  by (simp add: pow2_powi power_int_strict_increasing)














subsection \<open>The uptime\<close>






subsection \<open>The disk partitions\<close>

lemma get_disk_info_loop_skip:
  "os_name os = ''nt'' \<and> (contains (part_opts part) ''cdrom'' \<or> part_fstype part = []) \<Longrightarrow>
   get_disk_info_loop os (part # rest) acc = get_disk_info_loop os rest acc"
  by auto

lemma get_disk_info_loop_usage:
  "\<not> (os_name os = ''nt'' \<and> (contains (part_opts part) ''cdrom'' \<or> part_fstype part = [])) \<Longrightarrow>
   disk_usage os (part_mountpoint part) = Sdiskusage t u f p \<Longrightarrow>
   get_disk_info_loop os (part # rest) acc =
     get_disk_info_loop os rest
       (acc @ [\<lparr>device = part_device part, mountpoint = part_mountpoint part,
                fstype = part_fstype part, total_bytes = t, used_bytes = u, free_bytes = f,
                percent = p\<rparr>])"
  by auto

lemma get_disk_info_loop_denied:
  "\<not> (os_name os = ''nt'' \<and> (contains (part_opts part) ''cdrom'' \<or> part_fstype part = [])) \<Longrightarrow>
   disk_usage os (part_mountpoint part) = UsageRaises e \<Longrightarrow> is_PermissionError e \<Longrightarrow>
   get_disk_info_loop os (part # rest) acc = get_disk_info_loop os rest acc"
  by auto

lemma get_disk_info_loop_other:
  "\<not> (os_name os = ''nt'' \<and> (contains (part_opts part) ''cdrom'' \<or> part_fstype part = [])) \<Longrightarrow>
   disk_usage os (part_mountpoint part) = UsageRaises e \<Longrightarrow> \<not> is_PermissionError e \<Longrightarrow>
   get_disk_info_loop os (part # rest) acc = Inl e"
  by auto

lemma get_disk_info_loop_length:
  "get_disk_info_loop os parts acc = Inr ps \<Longrightarrow> length ps \<le> length acc + length parts"
proof (induction parts arbitrary: acc)
  case Nil
  then show ?case by simp
next
  case (Cons part rest)
  show ?case
  proof (cases "os_name os = ''nt'' \<and>
         (contains (part_opts part) ''cdrom'' \<or> part_fstype part = [])")
    case True
    from Cons.prems have "get_disk_info_loop os rest acc = Inr ps"
      by (simp only: get_disk_info_loop_skip [OF True])
    from Cons.IH [OF this] show ?thesis by simp
  next
    case False
    show ?thesis
    proof (cases "disk_usage os (part_mountpoint part)")
      case (Sdiskusage t u f p)
      from Cons.prems Cons.IH show ?thesis
        unfolding get_disk_info_loop_usage [OF False Sdiskusage] by fastforce
    next
      case (UsageRaises e)
      show ?thesis
      proof (cases "is_PermissionError e")
        case True
        from Cons.prems have "get_disk_info_loop os rest acc = Inr ps"
          by (simp only: get_disk_info_loop_denied [OF False UsageRaises True])
        from Cons.IH [OF this] show ?thesis by simp
      next
        case no: False
        from Cons.prems show ?thesis
          by (simp only: get_disk_info_loop_other [OF False UsageRaises no]) simp
      qed
    qed
  qed
qed

lemma get_disk_info_loop_readable:
  "get_disk_info_loop os parts acc = Inr ps \<Longrightarrow> x \<in> set ps \<Longrightarrow>
   x \<in> set acc \<or> (\<exists>t u f p. disk_usage os (mountpoint x) = Sdiskusage t u f p)"
proof (induction parts arbitrary: acc)
  case Nil
  then show ?case by simp
next
  case (Cons part rest)
  show ?case
  proof (cases "os_name os = ''nt'' \<and>
         (contains (part_opts part) ''cdrom'' \<or> part_fstype part = [])")
    case True
    from Cons.prems(1) have "get_disk_info_loop os rest acc = Inr ps"
      by (simp only: get_disk_info_loop_skip [OF True])
    from Cons.IH [OF this Cons.prems(2)] show ?thesis .
  next
    case False
    show ?thesis
    proof (cases "disk_usage os (part_mountpoint part)")
      case (Sdiskusage t u f p)
      let ?entry = "\<lparr>device = part_device part, mountpoint = part_mountpoint part,
          fstype = part_fstype part, total_bytes = t, used_bytes = u, free_bytes = f,
          percent = p\<rparr>"
      from Cons.prems(1)
      have "get_disk_info_loop os rest (acc @ [?entry]) = Inr ps"
        by (simp only: get_disk_info_loop_usage [OF False Sdiskusage])
      from Cons.IH [OF this Cons.prems(2)] Sdiskusage show ?thesis by auto
    next
      case (UsageRaises e)
      show ?thesis
      proof (cases "is_PermissionError e")
        case True
        from Cons.prems(1) have "get_disk_info_loop os rest acc = Inr ps"
          by (simp only: get_disk_info_loop_denied [OF False UsageRaises True])
        from Cons.IH [OF this Cons.prems(2)] show ?thesis .
      next
        case no: False
        from Cons.prems(1) show ?thesis
          by (simp only: get_disk_info_loop_other [OF False UsageRaises no]) simp
      qed
    qed
  qed
qed

lemma get_disk_info_loop_raises:
  "get_disk_info_loop os parts acc = Inl e \<Longrightarrow> \<not> is_PermissionError e"
proof (induction parts arbitrary: acc)
  case Nil
  then show ?case by simp
next
  case (Cons part rest)
  then show ?case
    by (auto split: if_splits usage_result.splits)
qed

lemma get_disk_info_loop_returns:
  "(\<forall>part\<in>set parts. case disk_usage os (part_mountpoint part) of
       Sdiskusage t u f p \<Rightarrow> True | UsageRaises e \<Rightarrow> is_PermissionError e) \<Longrightarrow>
   \<exists>ps. get_disk_info_loop os parts acc = Inr ps"
proof (induction parts arbitrary: acc)
  case Nil
  show ?case by simp
next
  case (Cons part rest)
  then show ?case
    by (cases "disk_usage os (part_mountpoint part)") auto
qed

text \<open>
  C8: \<^verbatim>\<open>get_disk_info\<close> never raises a \<^verbatim>\<open>PermissionError\<close>; when it returns, the
  list is no longer than the list of partitions that the OS reports and holds no mount
  point whose usage query raised a \<^verbatim>\<open>PermissionError\<close>; and when no usage query fails
  in any other way, it returns.
\<close>

theorem get_disk_info_omits_unreadable:
  "get_disk_info os \<noteq> Inl (PermissionError m) \<and>
   (get_disk_info os = Inr ps \<longrightarrow>
      length ps \<le> length (disk_partitions os) \<and>
      (\<forall>part\<in>set (disk_partitions os).
         disk_usage os (part_mountpoint part) = UsageRaises (PermissionError m) \<longrightarrow>
         part_mountpoint part \<notin> mountpoint ` set ps)) \<and>
   ((\<forall>part\<in>set (disk_partitions os).
       case disk_usage os (part_mountpoint part) of
         Sdiskusage t u f p \<Rightarrow> True | UsageRaises e \<Rightarrow> is_PermissionError e) \<longrightarrow>
    (\<exists>ps. get_disk_info os = Inr ps))"
proof (intro conjI impI ballI)
  show "get_disk_info os \<noteq> Inl (PermissionError m)"
    using get_disk_info_loop_raises [of os "disk_partitions os" "[]" "PermissionError m"]
    by (auto simp: get_disk_info_def)
next
  assume "get_disk_info os = Inr ps"
  then show "length ps \<le> length (disk_partitions os)"
    using get_disk_info_loop_length [of os "disk_partitions os" "[]" ps]
    by (simp add: get_disk_info_def)
next
  fix part
  assume r: "get_disk_info os = Inr ps"
    and "part \<in> set (disk_partitions os)"
    and d: "disk_usage os (part_mountpoint part) = UsageRaises (PermissionError m)"
  show "part_mountpoint part \<notin> mountpoint ` set ps"
  proof
    assume "part_mountpoint part \<in> mountpoint ` set ps"
    then obtain x where x: "x \<in> set ps" "mountpoint x = part_mountpoint part" by auto
    from r have "get_disk_info_loop os (disk_partitions os) [] = Inr ps"
      by (simp add: get_disk_info_def)
    from get_disk_info_loop_readable [OF this x(1)] x(2) d show False by simp
  qed
next
  assume "\<forall>part\<in>set (disk_partitions os).
       case disk_usage os (part_mountpoint part) of
         Sdiskusage t u f p \<Rightarrow> True | UsageRaises e \<Rightarrow> is_PermissionError e"
  then show "\<exists>ps. get_disk_info os = Inr ps"
    unfolding get_disk_info_def by (rule get_disk_info_loop_returns)
qed

theorem get_disk_info_omits_unreadable_witness:
  "get_disk_info sample_os = Inr sample_disk_info \<and>
   disk_usage sample_os ''/mnt/private'' = UsageRaises (PermissionError ''Permission denied'') \<and>
   list_all
     (\<lambda>part. case disk_usage sample_os (part_mountpoint part) of
                Sdiskusage t u f p \<Rightarrow> True | UsageRaises e \<Rightarrow> is_PermissionError e)
     (disk_partitions sample_os) \<and>
   (\<exists>ps. get_disk_info sample_os = Inr ps) \<and>
   length sample_disk_info \<le> length (disk_partitions sample_os) \<and>
   ''/mnt/private'' \<notin> mountpoint ` set sample_disk_info"
proof -
  have a: "get_disk_info sample_os = Inr sample_disk_info"
    by (simp add: get_disk_info_def sample_os_def sample_disk_info_def)
  have b: "disk_usage sample_os ''/mnt/private'' =
      UsageRaises (PermissionError ''Permission denied'')"
    by (simp add: sample_os_def)
  have c: "\<forall>part\<in>set (disk_partitions sample_os).
       case disk_usage sample_os (part_mountpoint part) of
         Sdiskusage t u f p \<Rightarrow> True | UsageRaises e \<Rightarrow> is_PermissionError e"
    by (simp add: sample_os_def)
  have d: "\<lparr>part_device = ''/dev/sdb1'', part_mountpoint = ''/mnt/private'',
          part_fstype = ''ext4'', part_opts = ''rw''\<rparr> \<in> set (disk_partitions sample_os)"
    by (simp add: sample_os_def)
  from get_disk_info_omits_unreadable
         [where os = sample_os and ps = sample_disk_info and m = "''Permission denied''"] a
  have "length sample_disk_info \<le> length (disk_partitions sample_os)"
    and e: "\<forall>part\<in>set (disk_partitions sample_os).
         disk_usage sample_os (part_mountpoint part) =
           UsageRaises (PermissionError ''Permission denied'') \<longrightarrow>
         part_mountpoint part \<notin> mountpoint ` set sample_disk_info"
    by blast+
  moreover from e d b have "''/mnt/private'' \<notin> mountpoint ` set sample_disk_info"
    by fastforce
  moreover from get_disk_info_omits_unreadable [where os = sample_os] c
  have "\<exists>ps. get_disk_info sample_os = Inr ps"
    by blast
  moreover from c have "list_all
     (\<lambda>part. case disk_usage sample_os (part_mountpoint part) of
                Sdiskusage t u f p \<Rightarrow> True | UsageRaises e \<Rightarrow> is_PermissionError e)
     (disk_partitions sample_os)"
    by (simp only: list_all_iff)
  ultimately show ?thesis using a b by blast
qed

subsection \<open>One tick\<close>

lemma update_dashboard_Inl:
  "get_disk_info os = Inl e \<Longrightarrow> \<exists>s'. update_dashboard os s = Raised e s' \<and>
     dashboard_updates s' = Suc (dashboard_updates s) \<and>
     cpu_queries s' = Suc (cpu_queries s) \<and>
     memory_queries s' = Suc (memory_queries s) \<and>
     cpu_progress s' = cpu_percent os (cpu_queries s) \<and>
     memory_progress s' = memory_percent os (memory_queries s) \<and>
     cpu_line s' = cpu_usage_history s \<and>
     memory_line s' = memory_usage_history s \<and>
     cpu_usage_history s' = cpu_usage_history s \<and>
     memory_usage_history s' = memory_usage_history s \<and>
     selected_tab s' = selected_tab s"
  by (simp add: update_dashboard_def get_cpu_info_def get_memory_info_def Let_def)

lemma update_dashboard_Inr:
  "get_disk_info os = Inr d \<Longrightarrow> \<exists>s'. update_dashboard os s = Done () s' \<and>
     dashboard_updates s' = Suc (dashboard_updates s) \<and>
     cpu_queries s' = Suc (cpu_queries s) \<and>
     memory_queries s' = Suc (memory_queries s) \<and>
     cpu_progress s' = cpu_percent os (cpu_queries s) \<and>
     memory_progress s' = memory_percent os (memory_queries s) \<and>
     cpu_line s' = cpu_usage_history s \<and>
     memory_line s' = memory_usage_history s \<and>
     cpu_usage_history s' = cpu_usage_history s \<and>
     memory_usage_history s' = memory_usage_history s \<and>
     selected_tab s' = selected_tab s"
  by (simp add: update_dashboard_def get_cpu_info_def get_memory_info_def Let_def)

lemma update_system_page_fields:
  "dashboard_updates (update_system_page os s) = dashboard_updates s"
  "cpu_queries (update_system_page os s) = Suc (cpu_queries s)"
  "memory_queries (update_system_page os s) = memory_queries s"
  "cpu_progress (update_system_page os s) = cpu_progress s"
  "memory_progress (update_system_page os s) = memory_progress s"
  "cpu_line (update_system_page os s) = cpu_line s"
  "memory_line (update_system_page os s) = memory_line s"
  "selected_tab (update_system_page os s) = selected_tab s"
  by (simp_all add: update_system_page_def get_cpu_info_def Let_def)

lemma update_disk_info_fields:
  "dashboard_updates (state_of (update_disk_info os s)) = dashboard_updates s"
  "cpu_queries (state_of (update_disk_info os s)) = cpu_queries s"
  "memory_queries (state_of (update_disk_info os s)) = memory_queries s"
  "cpu_progress (state_of (update_disk_info os s)) = cpu_progress s"
  "memory_progress (state_of (update_disk_info os s)) = memory_progress s"
  "cpu_line (state_of (update_disk_info os s)) = cpu_line s"
  "memory_line (state_of (update_disk_info os s)) = memory_line s"
  by (simp_all add: update_disk_info_def split: sum.split)

lemma history_append_Inr: "h \<noteq> [] \<Longrightarrow> history_append h v = Inr (tl h @ [v])"
  by (cases h) (simp_all add: history_append_def)

lemma update_system_info_effects:
  assumes c: "cpu_usage_history s \<noteq> []" and m: "memory_usage_history s \<noteq> []"
  shows "cpu_usage_history (state_of (update_system_info os s)) =
           tl (cpu_usage_history s) @ [cpu_percent os (cpu_queries s)] \<and>
         memory_usage_history (state_of (update_system_info os s)) =
           tl (memory_usage_history s) @ [memory_percent os (memory_queries s)] \<and>
         dashboard_updates (state_of (update_system_info os s)) = Suc (dashboard_updates s) \<and>
         cpu_progress (state_of (update_system_info os s)) = cpu_percent os (Suc (cpu_queries s)) \<and>
         memory_progress (state_of (update_system_info os s)) =
           memory_percent os (Suc (memory_queries s)) \<and>
         cpu_line (state_of (update_system_info os s)) =
           tl (cpu_usage_history s) @ [cpu_percent os (cpu_queries s)] \<and>
         memory_line (state_of (update_system_info os s)) =
           tl (memory_usage_history s) @ [memory_percent os (memory_queries s)] \<and>
         cpu_queries (state_of (update_system_info os s)) =
           cpu_queries s + 2 +
           (if selected_tab s = 1 \<and> \<not> isl (get_disk_info os) then 1 else 0) \<and>
         memory_queries (state_of (update_system_info os s)) = memory_queries s + 2"
proof -
  let ?s4 = "s\<lparr>cpu_queries := Suc (cpu_queries s),
                 memory_queries := Suc (memory_queries s),
                 cpu_usage_history := tl (cpu_usage_history s) @ [cpu_percent os (cpu_queries s)],
                 memory_usage_history :=
                   tl (memory_usage_history s) @ [memory_percent os (memory_queries s)]\<rparr>"
  have step: "update_system_info os s =
     (case update_dashboard os ?s4 of
        Raised e s \<Rightarrow> Raised e s
      | Done u s \<Rightarrow>
          (let s = (if selected_tab s = 1 then update_system_page os s else s)
           in case (if selected_tab s = 2 then update_disk_info os s else Done () s) of
                Raised e s \<Rightarrow> Raised e s
              | Done u s \<Rightarrow> Done () (s\<lparr>after_calls := after_calls s @ [update_interval s]\<rparr>)))"
    by (simp add: update_system_info_def get_cpu_info_def get_memory_info_def
        history_append_Inr c m Let_def)
  show ?thesis
  proof (cases "get_disk_info os")
    case (Inl e)
    from update_dashboard_Inl [OF Inl, of ?s4] obtain s5 where
      "update_dashboard os ?s4 = Raised e s5" and
      "dashboard_updates s5 = Suc (dashboard_updates ?s4)"
      "cpu_queries s5 = Suc (cpu_queries ?s4)"
      "memory_queries s5 = Suc (memory_queries ?s4)"
      "cpu_progress s5 = cpu_percent os (cpu_queries ?s4)"
      "memory_progress s5 = memory_percent os (memory_queries ?s4)"
      "cpu_line s5 = cpu_usage_history ?s4"
      "memory_line s5 = memory_usage_history ?s4"
      "cpu_usage_history s5 = cpu_usage_history ?s4"
      "memory_usage_history s5 = memory_usage_history ?s4"
      by blast
    then show ?thesis by (simp add: step Inl)
  next
    case (Inr d)
    from update_dashboard_Inr [OF Inr, of ?s4] obtain s5 where
      d: "update_dashboard os ?s4 = Done () s5" and
      f: "dashboard_updates s5 = Suc (dashboard_updates ?s4)"
      "cpu_queries s5 = Suc (cpu_queries ?s4)"
      "memory_queries s5 = Suc (memory_queries ?s4)"
      "cpu_progress s5 = cpu_percent os (cpu_queries ?s4)"
      "memory_progress s5 = memory_percent os (memory_queries ?s4)"
      "cpu_line s5 = cpu_usage_history ?s4"
      "memory_line s5 = memory_usage_history ?s4"
      "cpu_usage_history s5 = cpu_usage_history ?s4"
      "memory_usage_history s5 = memory_usage_history ?s4"
      "selected_tab s5 = selected_tab ?s4"
      by blast
    show ?thesis
      using f
      by (simp add: step d Inr Let_def update_system_page_fields update_system_page_histories
          update_disk_info_def)
  qed
qed

lemma get_disk_info_sample: "get_disk_info sample_os = Inr sample_disk_info"
  by (simp add: get_disk_info_def sample_os_def sample_disk_info_def)

text \<open>
  C2, as the spec states it: on a tick the OS is asked once for the CPU percentage
  \<open>p\<close>, and the presentation is given that same \<open>p\<close>. On the code this fails: in the
  first tick on \<open>sample_os\<close> the CPU percentage is read twice; the history receives
  the first reading, 42.5, and the progress bar of the dashboard shows the second, 17.
\<close>

theorem first_tick_queries_cpu_twice:
  "cpu_queries initial = 0 \<and>
   cpu_queries (state_of (update_system_info sample_os initial)) = 2 \<and>
   last (cpu_usage_history (state_of (update_system_info sample_os initial))) = 42.5 \<and>
   cpu_progress (state_of (update_system_info sample_os initial)) = 17"
proof -
  have c: "cpu_usage_history initial \<noteq> []" and m: "memory_usage_history initial \<noteq> []"
    by (simp_all add: initial_def)
  have q: "cpu_queries initial = 0" "selected_tab initial = 0"
    by (simp_all add: initial_def)
  have p: "cpu_percent sample_os 0 = 42.5" "cpu_percent sample_os (Suc 0) = 17"
    by (simp_all add: sample_os_def)
  from update_system_info_effects [OF c m, of sample_os] show ?thesis
    by (simp add: q p)
qed

text \<open>
  C2, amended: on a tick with non-empty histories, \<^verbatim>\<open>get_cpu_info\<close> is called twice
  (by \<^verbatim>\<open>update_system_info\<close> and by \<^verbatim>\<open>update_dashboard\<close>), and a third time when the
  system page is selected and the dashboard update did not raise; \<^verbatim>\<open>get_memory_info\<close>
  is called twice. The last element of each history is the first reading of the tick,
  \<^verbatim>\<open>update_dashboard\<close> runs exactly once, the chart lines are given the histories, and
  the progress bars show the second readings.
\<close>

theorem tick_samples_twice:
  assumes "cpu_usage_history s \<noteq> []" and "memory_usage_history s \<noteq> []"
  shows "last (cpu_usage_history (state_of (update_system_info os s))) =
           cpu_percent os (cpu_queries s) \<and>
         last (memory_usage_history (state_of (update_system_info os s))) =
           memory_percent os (memory_queries s) \<and>
         dashboard_updates (state_of (update_system_info os s)) = Suc (dashboard_updates s) \<and>
         cpu_line (state_of (update_system_info os s)) =
           cpu_usage_history (state_of (update_system_info os s)) \<and>
         memory_line (state_of (update_system_info os s)) =
           memory_usage_history (state_of (update_system_info os s)) \<and>
         cpu_progress (state_of (update_system_info os s)) =
           cpu_percent os (Suc (cpu_queries s)) \<and>
         memory_progress (state_of (update_system_info os s)) =
           memory_percent os (Suc (memory_queries s)) \<and>
         cpu_queries (state_of (update_system_info os s)) =
           cpu_queries s + 2 +
           (if selected_tab s = 1 \<and> \<not> isl (get_disk_info os) then 1 else 0) \<and>
         memory_queries (state_of (update_system_info os s)) = memory_queries s + 2"
  using update_system_info_effects [OF assms, of os] by simp

theorem tick_samples_twice_witness:
  "cpu_usage_history initial \<noteq> [] \<and> memory_usage_history initial \<noteq> [] \<and>
   last (cpu_usage_history (state_of (update_system_info sample_os initial))) = 42.5 \<and>
   last (memory_usage_history (state_of (update_system_info sample_os initial))) = 61 \<and>
   dashboard_updates (state_of (update_system_info sample_os initial)) = 1 \<and>
   cpu_line (state_of (update_system_info sample_os initial)) =
     cpu_usage_history (state_of (update_system_info sample_os initial)) \<and>
   cpu_progress (state_of (update_system_info sample_os initial)) = 17 \<and>
   memory_progress (state_of (update_system_info sample_os initial)) = 63 \<and>
   cpu_queries (state_of (update_system_info sample_os initial)) = 2 \<and>
   memory_queries (state_of (update_system_info sample_os initial)) = 2"
proof -
  have c: "cpu_usage_history initial \<noteq> []" and m: "memory_usage_history initial \<noteq> []"
    by (simp_all add: initial_def)
  have q: "cpu_queries initial = 0" "memory_queries initial = 0" "selected_tab initial = 0"
    "dashboard_updates initial = 0"
    by (simp_all add: initial_def)
  have p: "cpu_percent sample_os 0 = 42.5" "cpu_percent sample_os (Suc 0) = 17"
    "memory_percent sample_os 0 = 61" "memory_percent sample_os (Suc 0) = 63"
    by (simp_all add: sample_os_def)
  from tick_samples_twice [OF c m, of sample_os] c m show ?thesis
    by (simp add: q p)
qed

end
